theory Spec2Isabelle
  imports Complex_Main "HOL-Library.Sublist"
begin

section \<open>The upload server of the containerized data importer\<close>

text \<open>
  A shallow embedding of \<^verbatim>\<open>pkg/uploadserver/uploadserver.go\<close>: the session flags of
  \<^verbatim>\<open>uploadServerApp\<close>, the admission check, the synchronous and asynchronous upload
  handlers with the background goroutine of the asynchronous one, the multipart body
  extraction, the content decoder and the archive extractor for block devices.
\<close>

subsection \<open>Errors, readers and HTTP values\<close>

text \<open>
  Go errors as values. \<^verbatim>\<open>errors.As(err, &importer.ValidationSizeError{})\<close> only asks
  whether the error is (or wraps) a size validation error, so that is a constructor of its
  own; \<^verbatim>\<open>io.EOF\<close> is compared by identity in the source and is one too, and so is
  \<^verbatim>\<open>io.ErrUnexpectedEOF\<close>, with which a tar reader ends an entry that is cut short.
\<close>

datatype error = EOF | ErrUnexpectedEOF | ValidationSizeError string | Err string

fun isValidationSizeError :: "error \<Rightarrow> bool" where
  "isValidationSizeError (ValidationSizeError m) = True"
| "isValidationSizeError e = False"

fun Error :: "error \<Rightarrow> string" where
  "Error EOF = ''EOF''"
| "Error ErrUnexpectedEOF = ''unexpected EOF''"
| "Error (ValidationSizeError m) = m"
| "Error (Err m) = m"

type_synonym bytes = "char list"

text \<open>
  An \<^verbatim>\<open>io.ReadCloser\<close>: the nil interface value, a stream of bytes (a request body or
  a multipart part), or \<^verbatim>\<open>io.NopCloser(snappy.NewReader(stream))\<close> around another
  reader.
\<close>

datatype readCloser = NilReader | Stream bytes | SnappyReader readCloser

text \<open>
  Reading a reader to its end. The snappy codec is a library outside the repository: its
  decoder is the parameter \<open>decode\<close>. Reading through the nil interface panics.
\<close>

fun readAll :: "(bytes \<Rightarrow> error + bytes) \<Rightarrow> readCloser \<Rightarrow> error + bytes" where
  "readAll decode NilReader = Inl (Err ''nil pointer dereference'')"
| "readAll decode (Stream bs) = Inr bs"
| "readAll decode (SnappyReader r) =
     (case readAll decode r of Inl e \<Rightarrow> Inl e | Inr bs \<Rightarrow> decode bs)"

abbreviation MethodPost :: string where "MethodPost \<equiv> ''POST''"
abbreviation MethodHead :: string where "MethodHead \<equiv> ''HEAD''"

abbreviation StatusOK :: nat where "StatusOK \<equiv> 200"
abbreviation StatusBadRequest :: nat where "StatusBadRequest \<equiv> 400"
abbreviation StatusUnauthorized :: nat where "StatusUnauthorized \<equiv> 401"
abbreviation StatusNotFound :: nat where "StatusNotFound \<equiv> 404"
abbreviation StatusConflict :: nat where "StatusConflict \<equiv> 409"
abbreviation StatusInternalServerError :: nat where "StatusInternalServerError \<equiv> 500"
abbreviation StatusServiceUnavailable :: nat where "StatusServiceUnavailable \<equiv> 503"

text \<open>
  The \<^verbatim>\<open>http.ResponseWriter\<close> of one request: every status handed to
  \<^verbatim>\<open>WriteHeader\<close>, in call order, and the body written. The status that goes on the
  wire is the first one (net/http ignores a later call as superfluous), or 200 when the
  handler returns without any.
\<close>

record responseWriter =
  headerCalls :: "nat list"
  written :: string

definition newResponse :: responseWriter where
  "newResponse = \<lparr>headerCalls = [], written = []\<rparr>"

definition WriteHeader :: "nat \<Rightarrow> responseWriter \<Rightarrow> responseWriter" where
  "WriteHeader code w = w\<lparr>headerCalls := headerCalls w @ [code]\<rparr>"

definition Fprintf :: "string \<Rightarrow> responseWriter \<Rightarrow> responseWriter" where
  "Fprintf s w =
     (let w' = (if headerCalls w = [] then WriteHeader StatusOK w else w)
      in w'\<lparr>written := written w' @ s\<rparr>)"

definition status :: "responseWriter \<Rightarrow> nat" where
  "status w = (case headerCalls w of [] \<Rightarrow> StatusOK | c # cs \<Rightarrow> c)"

text \<open>
  A multipart part, and what the handlers read of an \<^verbatim>\<open>http.Request\<close>: the method,
  the subject common names of \<^verbatim>\<open>r.TLS.PeerCertificates\<close> (\<open>None\<close> when
  \<^verbatim>\<open>r.TLS\<close> is nil), the value of the upload content type header (empty when the
  header is absent), the body, and the body seen as a multipart form:
  \<open>Inl e\<close> when \<^verbatim>\<open>r.MultipartReader()\<close> fails with \<open>e\<close>, \<open>Inr (ps, e)\<close> when
  \<^verbatim>\<open>NextPart\<close> yields the parts \<open>ps\<close> in order and then fails with \<open>e\<close>
  (\<^verbatim>\<open>io.EOF\<close> at the end of a well-formed form).
\<close>

record part =
  FormName :: string
  content :: bytes

record request =
  Method :: string
  TLS :: "string list option"
  UploadContentTypeHeader :: string
  Body :: bytes
  Multipart :: "error + (part list \<times> error)"

subsection \<open>Body extraction\<close>

definition bodyReadCloser :: "request \<Rightarrow> error + readCloser" where
  "bodyReadCloser r = Inr (Stream (Body r))"

text \<open>The loop of \<^verbatim>\<open>formReadCloser\<close>: stop at the first error or the first part named file.\<close>

fun nextFilePart :: "part list \<Rightarrow> error \<Rightarrow> error + readCloser" where
  "nextFilePart [] e = Inl e"
| "nextFilePart (p # ps) e =
     (if FormName p = ''file'' then Inr (Stream (content p)) else nextFilePart ps e)"

definition formReadCloser :: "request \<Rightarrow> error + readCloser" where
  "formReadCloser r =
     (case Multipart r of
        Inl e \<Rightarrow> Inl e
      | Inr (ps, e) \<Rightarrow> nextFilePart ps e)"

subsection \<open>The session\<close>

text \<open>
  The run loop of \<^verbatim>\<open>Run\<close> is the only receiver of both channels: it waits in one
  \<^verbatim>\<open>select\<close> and returns on the first event.
\<close>

datatype runLoop = Waiting | ReturnedError error | ShutDown

text \<open>
  \<^verbatim>\<open>uploadServerApp\<close>: the configuration the handlers read, the session flags, and the
  two channels. \<open>doneChan\<close> is only ever closed, so its state is whether it is closed.
  \<open>errChan\<close> is unbuffered: a send completes only while the run loop is receiving, so its
  state is the state of that loop. The listener and TLS fields are not read by any handler
  and are left out.
\<close>

record uploadServerApp =
  destination :: string
  clientName :: string
  imageSize :: string
  filesystemOverhead :: real
  preallocation :: bool
  uploading :: bool
  processing :: bool
  "done" :: bool
  preallocationApplied :: bool
  doneChanClosed :: bool
  run :: runLoop

text \<open>The session part of \<^verbatim>\<open>NewUploadServer\<close>; unset fields have Go's zero value.\<close>

definition NewUploadServer :: "string \<Rightarrow> string \<Rightarrow> string \<Rightarrow> real \<Rightarrow> bool \<Rightarrow> uploadServerApp" where
  "NewUploadServer dest cname isize overhead prealloc =
     \<lparr>destination = dest, clientName = cname, imageSize = isize,
      filesystemOverhead = overhead, preallocation = prealloc,
      uploading = False, processing = False, done = False,
      preallocationApplied = False, doneChanClosed = False, run = Waiting\<rparr>"

text \<open>
  What a handler or goroutine did: it returned, it panicked (the state written so far
  stays), or it is blocked for ever on a channel.
\<close>

datatype 'a outcome = Returned 'a | Panicked 'a | Blocked 'a

fun state_of :: "'a outcome \<Rightarrow> 'a" where
  "state_of (Returned s) = s"
| "state_of (Panicked s) = s"
| "state_of (Blocked s) = s"

text \<open>
  \<^verbatim>\<open>close(app.doneChan)\<close>: closing a closed channel panics; a waiting run loop takes
  the done branch of its \<^verbatim>\<open>select\<close> and shuts the servers down.
\<close>

definition close_doneChan :: "uploadServerApp \<Rightarrow> uploadServerApp outcome" where
  "close_doneChan app =
     (if doneChanClosed app then Panicked app
      else Returned (app\<lparr>doneChanClosed := True,
                         run := (if run app = Waiting then ShutDown else run app)\<rparr>))"

text \<open>
  \<^verbatim>\<open>app.errChan <- err\<close>: the value is handed to the run loop if it is waiting
  (\<open>Some\<close>); otherwise nobody ever receives and the sender blocks (\<open>None\<close>).
\<close>

definition errChan_send :: "error \<Rightarrow> uploadServerApp \<Rightarrow> uploadServerApp option" where
  "errChan_send e app =
     (if run app = Waiting then Some (app\<lparr>run := ReturnedError e\<rparr>) else None)"

subsection \<open>The admission check\<close>

text \<open>The loop over the peer certificates, with its \<^verbatim>\<open>break\<close>.\<close>

fun foundClientName :: "string \<Rightarrow> string list \<Rightarrow> bool" where
  "foundClientName name [] = False"
| "foundClientName name (cn # cns) = (if cn = name then True else foundClientName name cns)"

text \<open>
  \<^verbatim>\<open>validateShouldHandleRequest\<close>: the method check, the peer identity check, then,
  holding the mutex, the check of the flags. The result is whether the request is admitted,
  the session and the response.
\<close>

definition validateShouldHandleRequest ::
    "uploadServerApp \<Rightarrow> responseWriter \<Rightarrow> request \<Rightarrow> bool \<times> uploadServerApp \<times> responseWriter" where
  "validateShouldHandleRequest app w r =
     (if Method r \<noteq> MethodPost then (False, app, WriteHeader StatusNotFound w)
      else if (case TLS r of
                 Some certs \<Rightarrow> \<not> foundClientName (clientName app) certs
               | None \<Rightarrow> False)
        then (False, app, WriteHeader StatusUnauthorized w)
      else if uploading app \<or> processing app
        then (False, app, WriteHeader StatusServiceUnavailable w)
      else if done app
        then (False, app, WriteHeader StatusConflict w)
      else (True, app\<lparr>uploading := True\<rparr>, w))"

subsection \<open>The upload handlers\<close>

datatype dataVolumeContentType = DataVolumeKubeVirt | DataVolumeArchive

text \<open>
  What the handler uses of an \<^verbatim>\<open>importer.DataProcessor\<close> (a package outside this
  file): the result of \<^verbatim>\<open>ProcessDataResume\<close> and of \<^verbatim>\<open>PreallocationApplied\<close>.
\<close>

record dataProcessor =
  ProcessDataResume :: "error option"
  PreallocationApplied :: bool

text \<open>
  The package variables \<^verbatim>\<open>uploadProcessorFunc\<close> and \<^verbatim>\<open>uploadProcessorFuncAsync\<close>
  (replaceable, so parameters of the handlers), with the arguments the handlers pass:
  stream, destination, image size, filesystem overhead, preallocation, source content type
  and, for the synchronous one, the data volume content type. The asynchronous one returns
  a processor and an error; the handler reads the processor only when the error is nil.
\<close>

type_synonym uploadProcessor =
  "readCloser \<Rightarrow> string \<Rightarrow> string \<Rightarrow> real \<Rightarrow> bool \<Rightarrow> string \<Rightarrow> dataVolumeContentType
     \<Rightarrow> bool \<times> error option"

type_synonym uploadProcessorAsync =
  "readCloser \<Rightarrow> string \<Rightarrow> string \<Rightarrow> real \<Rightarrow> bool \<Rightarrow> string \<Rightarrow> error + dataProcessor"

type_synonym imageReadCloser = "request \<Rightarrow> error + readCloser"

text \<open>
  \<^verbatim>\<open>readCloser, err := irc(r); if err != nil { w.WriteHeader(http.StatusBadRequest) }\<close>:
  both handlers go on with the nil reader after a failed extraction.
\<close>

definition readBody :: "imageReadCloser \<Rightarrow> responseWriter \<Rightarrow> request \<Rightarrow> readCloser \<times> responseWriter" where
  "readBody irc w r =
     (case irc r of
        Inl e \<Rightarrow> (NilReader, WriteHeader StatusBadRequest w)
      | Inr rc \<Rightarrow> (rc, w))"

text \<open>
  The end of \<^verbatim>\<open>processUpload\<close>, from the call of the processor on: the write of
  \<open>preallocationApplied\<close>, then, holding the mutex, the error branch or the completion.
\<close>

definition finishUpload ::
    "uploadProcessor \<Rightarrow> dataVolumeContentType \<Rightarrow> readCloser \<Rightarrow> string
       \<Rightarrow> uploadServerApp \<Rightarrow> responseWriter \<Rightarrow> (uploadServerApp \<times> responseWriter) outcome" where
  "finishUpload upf dvContentType readCloser cdiContentType app w =
     (case upf readCloser (destination app) (imageSize app) (filesystemOverhead app)
             (preallocation app) cdiContentType dvContentType of
        (applied, err) \<Rightarrow>
          (let app1 = app\<lparr>preallocationApplied := applied\<rparr> in
           case err of
             Some e \<Rightarrow> Returned (app1\<lparr>uploading := False\<rparr>, WriteHeader StatusInternalServerError w)
           | None \<Rightarrow>
               (case close_doneChan (app1\<lparr>uploading := False, done := True\<rparr>) of
                  Returned app2 \<Rightarrow> Returned (app2, w)
                | Panicked app2 \<Rightarrow> Panicked (app2, w)
                | Blocked app2 \<Rightarrow> Blocked (app2, w))))"

text \<open>\<^verbatim>\<open>processUpload\<close>, run without another request in between.\<close>

definition processUpload ::
    "uploadProcessor \<Rightarrow> imageReadCloser \<Rightarrow> uploadServerApp \<Rightarrow> responseWriter \<Rightarrow> request
       \<Rightarrow> dataVolumeContentType \<Rightarrow> (uploadServerApp \<times> responseWriter) outcome" where
  "processUpload upf irc app w r dvContentType =
     (case validateShouldHandleRequest app w r of
        (False, app1, w1) \<Rightarrow> Returned (app1, w1)
      | (True, app1, w1) \<Rightarrow>
          (case readBody irc w1 r of
             (readCloser, w2) \<Rightarrow>
               finishUpload upf dvContentType readCloser (UploadContentTypeHeader r) app1 w2))"

definition uploadHandler ::
    "uploadProcessor \<Rightarrow> imageReadCloser \<Rightarrow> uploadServerApp \<Rightarrow> responseWriter \<Rightarrow> request
       \<Rightarrow> (uploadServerApp \<times> responseWriter) outcome" where
  "uploadHandler upf irc app w r = processUpload upf irc app w r DataVolumeKubeVirt"

definition uploadArchiveHandler ::
    "uploadProcessor \<Rightarrow> imageReadCloser \<Rightarrow> uploadServerApp \<Rightarrow> responseWriter \<Rightarrow> request
       \<Rightarrow> (uploadServerApp \<times> responseWriter) outcome" where
  "uploadArchiveHandler upf irc app w r = processUpload upf irc app w r DataVolumeArchive"

text \<open>
  The end of the handler of \<^verbatim>\<open>uploadHandlerAsync\<close>, from the call of the processor on.
  The third component is the processor handed to the goroutine the handler starts, if any.
\<close>

definition finishUploadAsync ::
    "uploadProcessorAsync \<Rightarrow> readCloser \<Rightarrow> string \<Rightarrow> uploadServerApp \<Rightarrow> responseWriter
       \<Rightarrow> uploadServerApp \<times> responseWriter \<times> dataProcessor option" where
  "finishUploadAsync upfa readCloser cdiContentType app w =
     (case upfa readCloser (destination app) (imageSize app) (filesystemOverhead app)
             (preallocation app) cdiContentType of
        Inl err \<Rightarrow>
          (app\<lparr>uploading := False\<rparr>,
           Fprintf (''Saving stream failed: '' @ Error err)
             (WriteHeader (if isValidationSizeError err then StatusBadRequest
                           else StatusInternalServerError) w),
           None)
      | Inr processor \<Rightarrow>
          (app\<lparr>uploading := False, processing := True\<rparr>, w, Some processor))"

definition uploadHandlerAsync ::
    "uploadProcessorAsync \<Rightarrow> imageReadCloser \<Rightarrow> uploadServerApp \<Rightarrow> responseWriter \<Rightarrow> request
       \<Rightarrow> uploadServerApp \<times> responseWriter \<times> dataProcessor option" where
  "uploadHandlerAsync upfa irc app w r =
     (if Method r = MethodHead then (app, WriteHeader StatusOK w, None)
      else
        (case validateShouldHandleRequest app w r of
           (False, app1, w1) \<Rightarrow> (app1, w1, None)
         | (True, app1, w1) \<Rightarrow>
             (case readBody irc w1 r of
                (readCloser, w2) \<Rightarrow>
                  finishUploadAsync upfa readCloser (UploadContentTypeHeader r) app1 w2)))"

text \<open>
  The goroutine started by the asynchronous handler. A failed \<^verbatim>\<open>ProcessDataResume\<close>
  is sent on \<open>errChan\<close>; once the send has completed the goroutine goes on (there is no
  return in that branch): it takes the mutex, sets the flags, and on leaving runs the
  deferred \<^verbatim>\<open>close(app.doneChan)\<close>. A send that nobody receives blocks it for ever,
  before any of that.
\<close>

definition resumeProcessing :: "dataProcessor \<Rightarrow> uploadServerApp \<Rightarrow> uploadServerApp outcome" where
  "resumeProcessing processor app =
     (case (case ProcessDataResume processor of
              Some err \<Rightarrow> errChan_send err app
            | None \<Rightarrow> Some app) of
        None \<Rightarrow> Blocked app
      | Some app1 \<Rightarrow>
          close_doneChan
            (app1\<lparr>processing := False, done := True,
                   preallocationApplied := PreallocationApplied processor\<rparr>))"

subsection \<open>The server under concurrent requests\<close>

text \<open>
  The five path classes that \<^verbatim>\<open>NewUploadServer\<close> registers, and the body extraction
  each one is registered with.
\<close>

datatype route = SyncUpload | AsyncUpload | ArchiveUpload | SyncUploadForm | AsyncUploadForm

fun isAsync :: "route \<Rightarrow> bool" where
  "isAsync AsyncUpload = True"
| "isAsync AsyncUploadForm = True"
| "isAsync rt = False"

fun ircOf :: "route \<Rightarrow> imageReadCloser" where
  "ircOf SyncUploadForm = formReadCloser"
| "ircOf AsyncUploadForm = formReadCloser"
| "ircOf rt = bodyReadCloser"

fun dvContentTypeOf :: "route \<Rightarrow> dataVolumeContentType" where
  "dvContentTypeOf ArchiveUpload = DataVolumeArchive"
| "dvContentTypeOf rt = DataVolumeKubeVirt"

text \<open>
  An admitted handler that has read its body and has still to call the processor: its
  route, reader, content type header and response so far.
\<close>

record inflight =
  h_route :: route
  h_reader :: readCloser
  h_contentType :: string
  h_response :: responseWriter

text \<open>
  The server: the session, the admitted handlers that have not finished, the goroutines
  that have not finished, the responses of the handlers that returned, and the number of
  panics.
\<close>

record server =
  session :: uploadServerApp
  handlers :: "inflight list"
  goroutines :: "dataProcessor list"
  responses :: "responseWriter list"
  panics :: nat

definition newServer :: "uploadServerApp \<Rightarrow> server" where
  "newServer a = \<lparr>session = a, handlers = [], goroutines = [], responses = [], panics = 0\<rparr>"

definition without :: "nat \<Rightarrow> 'a list \<Rightarrow> 'a list" where
  "without i xs = take i xs @ drop (Suc i) xs"

text \<open>
  The steps of the server. Each is one stretch of code that touches the session under the
  mutex or through a channel: a request arrives and runs up to the call of the processor
  (\<open>Arrive\<close>); an admitted handler calls the processor and runs to its end (\<open>Proceed\<close>, by
  position); a goroutine runs (\<open>Resume\<close>, by position); one of the two listener goroutines
  of \<^verbatim>\<open>Run\<close> sends what its \<^verbatim>\<open>Serve\<close> returned on \<open>errChan\<close> (\<open>ListenerReturned\<close>).
  Requests may arrive between any two.
\<close>

datatype event = Arrive route request | Proceed nat | Resume nat | ListenerReturned error

definition arrive :: "route \<Rightarrow> request \<Rightarrow> server \<Rightarrow> server" where
  "arrive rt r s =
     (if isAsync rt \<and> Method r = MethodHead
        then s\<lparr>responses := responses s @ [WriteHeader StatusOK newResponse]\<rparr>
      else
        (case validateShouldHandleRequest (session s) newResponse r of
           (False, app1, w1) \<Rightarrow> s\<lparr>session := app1, responses := responses s @ [w1]\<rparr>
         | (True, app1, w1) \<Rightarrow>
             (case readBody (ircOf rt) w1 r of
                (readCloser, w2) \<Rightarrow>
                  s\<lparr>session := app1,
                    handlers := handlers s @
                      [\<lparr>h_route = rt, h_reader = readCloser,
                        h_contentType = UploadContentTypeHeader r, h_response = w2\<rparr>]\<rparr>)))"

definition proceed :: "uploadProcessor \<Rightarrow> uploadProcessorAsync \<Rightarrow> nat \<Rightarrow> server \<Rightarrow> server" where
  "proceed upf upfa i s =
     (if i < length (handlers s) then
        (let h = handlers s ! i; rest = without i (handlers s) in
         if isAsync (h_route h) then
           (case finishUploadAsync upfa (h_reader h) (h_contentType h) (session s) (h_response h) of
              (app1, w1, g) \<Rightarrow>
                s\<lparr>session := app1, handlers := rest, responses := responses s @ [w1],
                  goroutines := goroutines s @ (case g of None \<Rightarrow> [] | Some p \<Rightarrow> [p])\<rparr>)
         else
           (case finishUpload upf (dvContentTypeOf (h_route h)) (h_reader h) (h_contentType h)
                   (session s) (h_response h) of
              Returned (app1, w1) \<Rightarrow>
                s\<lparr>session := app1, handlers := rest, responses := responses s @ [w1]\<rparr>
            | Panicked (app1, w1) \<Rightarrow>
                s\<lparr>session := app1, handlers := rest, panics := Suc (panics s)\<rparr>
            | Blocked (app1, w1) \<Rightarrow> s\<lparr>session := app1\<rparr>))
      else s)"

definition resume :: "nat \<Rightarrow> server \<Rightarrow> server" where
  "resume i s =
     (if i < length (goroutines s) then
        (case resumeProcessing (goroutines s ! i) (session s) of
           Returned app1 \<Rightarrow> s\<lparr>session := app1, goroutines := without i (goroutines s)\<rparr>
         | Panicked app1 \<Rightarrow>
             s\<lparr>session := app1, goroutines := without i (goroutines s), panics := Suc (panics s)\<rparr>
         | Blocked app1 \<Rightarrow> s\<lparr>session := app1\<rparr>)
      else s)"

definition listenerReturned :: "error \<Rightarrow> server \<Rightarrow> server" where
  "listenerReturned e s =
     (case errChan_send e (session s) of
        Some app1 \<Rightarrow> s\<lparr>session := app1\<rparr>
      | None \<Rightarrow> s)"

fun step :: "uploadProcessor \<Rightarrow> uploadProcessorAsync \<Rightarrow> event \<Rightarrow> server \<Rightarrow> server" where
  "step upf upfa (Arrive rt r) s = arrive rt r s"
| "step upf upfa (Proceed i) s = proceed upf upfa i s"
| "step upf upfa (Resume i) s = resume i s"
| "step upf upfa (ListenerReturned e) s = listenerReturned e s"

fun exec :: "uploadProcessor \<Rightarrow> uploadProcessorAsync \<Rightarrow> event list \<Rightarrow> server \<Rightarrow> server" where
  "exec upf upfa [] s = s"
| "exec upf upfa (ev # evs) s = exec upf upfa evs (step upf upfa ev s)"

text \<open>
  What holds of the server at every moment: the flags exclude one another, the uploading
  flag is set exactly while one admitted handler is unfinished, the processing flag exactly
  while one goroutine is, the done channel is closed only once done is set, and nothing
  has panicked.
\<close>

definition consistent :: "server \<Rightarrow> bool" where
  "consistent s =
     (length (handlers s) = (if uploading (session s) then 1 else 0) \<and>
      length (goroutines s) = (if processing (session s) then 1 else 0) \<and>
      \<not> (uploading (session s) \<and> processing (session s)) \<and>
      \<not> (done (session s) \<and> (uploading (session s) \<or> processing (session s))) \<and>
      (\<not> doneChanClosed (session s) \<or> done (session s)) \<and>
      panics s = 0)"

subsection \<open>The content decoder and the archive extractor\<close>

definition newSnappyReadCloser :: "readCloser \<Rightarrow> readCloser" where
  "newSnappyReadCloser stream = SnappyReader stream"

text \<open>
  \<^verbatim>\<open>newContentReader\<close>. The token \<^verbatim>\<open>common.BlockdeviceClone\<close> is a constant of a
  package outside this file: it is the first parameter.
\<close>

definition newContentReader :: "string \<Rightarrow> readCloser \<Rightarrow> string \<Rightarrow> readCloser" where
  "newContentReader BlockdeviceClone stream contentType =
     (if contentType = BlockdeviceClone then newSnappyReadCloser stream else stream)"

text \<open>\<^verbatim>\<open>strings.Contains\<close>.\<close>

fun Contains :: "string \<Rightarrow> string \<Rightarrow> bool" where
  "Contains [] substr = (substr = [])"
| "Contains (c # s) substr = (prefix substr (c # s) \<or> Contains s substr)"

abbreviation TypeReg :: char where "TypeReg \<equiv> CHR ''0''"
abbreviation TypeGNUSparse :: char where "TypeGNUSparse \<equiv> CHR ''S''"

text \<open>
  What \<^verbatim>\<open>tr.Next()\<close> returns with a nil error: a header, with the bytes the reader
  then yields for that entry, or a nil header. \<open>Size\<close> is the \<^verbatim>\<open>int64\<close> of the header.
\<close>

record tarHeader =
  Name :: string
  Typeflag :: char
  Size :: int

datatype tarNext = Entry tarHeader bytes | NilHeader

text \<open>
  The destination \<^verbatim>\<open>*os.File\<close> once \<^verbatim>\<open>os.OpenFile\<close> has opened it: it takes every write, or
  it takes \<open>k\<close> bytes and the write that goes beyond them fails with \<open>e\<close>.
\<close>

datatype osFile = Accepting | FailingAfter nat error

text \<open>
  \<^verbatim>\<open>io.CopyN(f, tr, n)\<close> into the file \<open>f\<close> from a source that yields the bytes
  \<open>src\<close> and then ends with the error \<open>srcEnd\<close>. The result is the bytes written and the
  error. The copy reads at most \<open>n\<close> bytes and writes what it has read before it looks at
  a read error, so a failing write comes first. With all \<open>n\<close> bytes written the error is
  nil; with fewer it is the error of the source (for \<^verbatim>\<open>io.EOF\<close>, which the copy takes
  for a normal end, \<^verbatim>\<open>CopyN\<close> puts \<^verbatim>\<open>io.EOF\<close> back). A negative \<open>n\<close> copies
  nothing and returns nil.
\<close>

definition CopyN :: "osFile \<Rightarrow> bytes \<Rightarrow> error \<Rightarrow> int \<Rightarrow> bytes \<times> error option" where
  "CopyN f src srcEnd n =
     (let out = take (nat n) src;
          copied = (out, if int (length out) < n then Some srcEnd else None)
      in case f of
           Accepting \<Rightarrow> copied
         | FailingAfter k e \<Rightarrow> if k < length out then (take k out, Some e) else copied)"

text \<open>
  \<^verbatim>\<open>untarToBlockdev\<close>. The parameters are the marker \<^verbatim>\<open>common.DiskImageName\<close>
  (a constant of a package outside this file), the result of
  \<^verbatim>\<open>os.OpenFile(dest, ...)\<close> (\<open>Inl\<close> the error, \<open>Inr\<close> the file), the successive
  results of \<^verbatim>\<open>tr.Next()\<close> and the error that ends them (\<^verbatim>\<open>io.EOF\<close> at the end of
  the archive). The result is the bytes written to the destination and the error returned.
  The tar reader ends the bytes of an entry that has fewer than its declared size with
  \<^verbatim>\<open>io.ErrUnexpectedEOF\<close>.
\<close>

fun untarToBlockdev :: "string \<Rightarrow> error + osFile \<Rightarrow> tarNext list \<Rightarrow> error \<Rightarrow> bytes \<times> error option" where
  "untarToBlockdev DiskImageName openFile [] final =
     (if final = EOF then ([], None) else ([], Some final))"
| "untarToBlockdev DiskImageName openFile (NilHeader # rest) final =
     untarToBlockdev DiskImageName openFile rest final"
| "untarToBlockdev DiskImageName openFile (Entry header bs # rest) final =
     (if \<not> Contains (Name header) DiskImageName
        then untarToBlockdev DiskImageName openFile rest final
      else if Typeflag header = TypeReg \<or> Typeflag header = TypeGNUSparse
        then (case openFile of
                Inl err \<Rightarrow> ([], Some err)
              | Inr f \<Rightarrow> CopyN f bs ErrUnexpectedEOF (Size header))
      else untarToBlockdev DiskImageName openFile rest final)"

text \<open>An entry at which the extractor copies: the name has the marker and the type is
  regular or GNU sparse.\<close>

fun selected :: "string \<Rightarrow> tarNext \<Rightarrow> bool" where
  "selected DiskImageName NilHeader = False"
| "selected DiskImageName (Entry header bs) =
     (Contains (Name header) DiskImageName \<and>
      (Typeflag header = TypeReg \<or> Typeflag header = TypeGNUSparse))"

subsection \<open>Example inputs\<close>

text \<open>
  A session as \<^verbatim>\<open>NewUploadServer\<close> builds it, requests, processors that stand for the
  replaceable processor functions, and an archive; the runs below start from them.
\<close>

definition exampleApp :: uploadServerApp where
  "exampleApp = NewUploadServer ''/dev/cdi-block-volume'' ''client-A'' ''1Gi'' 0 True"

definition examplePost :: request where
  "examplePost = \<lparr>Method = MethodPost, TLS = None, UploadContentTypeHeader = [],
     Body = ''image'', Multipart = Inl (Err ''not multipart'')\<rparr>"

definition exampleHead :: request where
  "exampleHead = examplePost\<lparr>Method := MethodHead\<rparr>"

definition examplePeerB :: request where
  "examplePeerB = examplePost\<lparr>TLS := Some [''client-B'']\<rparr>"

definition exampleForm :: request where
  "exampleForm = examplePost\<lparr>Multipart :=
     Inr ([\<lparr>FormName = ''comment'', content = ''hello''\<rparr>], EOF)\<rparr>"

definition failingProcessor :: "error \<Rightarrow> uploadProcessor" where
  "failingProcessor e stream dest isize overhead prealloc ct dv = (False, Some e)"

definition succeedingProcessor :: "bool \<Rightarrow> uploadProcessor" where
  "succeedingProcessor applied stream dest isize overhead prealloc ct dv = (applied, None)"

definition failingProcessorAsync :: "error \<Rightarrow> uploadProcessorAsync" where
  "failingProcessorAsync e stream dest isize overhead prealloc ct = Inl e"

definition pausedProcessor :: "dataProcessor \<Rightarrow> uploadProcessorAsync" where
  "pausedProcessor p stream dest isize overhead prealloc ct = Inr p"

definition failedResume :: dataProcessor where
  "failedResume = \<lparr>ProcessDataResume = Some (Err ''no space left''), PreallocationApplied = True\<rparr>"

text \<open>An asynchronous upload whose background processing fails: before and after the goroutine.\<close>

definition asyncPendingRun :: server where
  "asyncPendingRun =
     exec (failingProcessor (Err ''unused'')) (pausedProcessor failedResume)
       [Arrive AsyncUpload examplePost, Proceed 0] (newServer exampleApp)"

definition asyncFailureRun :: server where
  "asyncFailureRun =
     exec (failingProcessor (Err ''unused'')) (pausedProcessor failedResume)
       [Arrive AsyncUpload examplePost, Proceed 0, Resume 0] (newServer exampleApp)"

text \<open>A synchronous upload that fails, and one that succeeds.\<close>

definition syncFailedRun :: server where
  "syncFailedRun =
     exec (failingProcessor (Err ''conversion failed'')) (pausedProcessor failedResume)
       [Arrive SyncUpload examplePost, Proceed 0] (newServer exampleApp)"

definition syncDoneRun :: server where
  "syncDoneRun =
     exec (succeedingProcessor True) (pausedProcessor failedResume)
       [Arrive SyncUpload examplePost, Proceed 0] (newServer exampleApp)"

definition exampleArchive :: "tarNext list" where
  "exampleArchive =
     [Entry \<lparr>Name = ''metadata.json'', Typeflag = TypeReg, Size = 2\<rparr> ''{}'',
      Entry \<lparr>Name = ''disk.img'', Typeflag = TypeReg, Size = 5\<rparr> ''hello'',
      Entry \<lparr>Name = ''disk.img.bak'', Typeflag = TypeReg, Size = 3\<rparr> ''old'']"

section \<open>Properties\<close>

subsection \<open>Auxiliary facts\<close>

lemmas run_simps =
  exampleApp_def examplePost_def NewUploadServer_def newServer_def arrive_def proceed_def
  resume_def validateShouldHandleRequest_def readBody_def bodyReadCloser_def
  finishUpload_def finishUploadAsync_def resumeProcessing_def close_doneChan_def
  errChan_send_def without_def newResponse_def WriteHeader_def Fprintf_def
  failingProcessor_def failingProcessorAsync_def pausedProcessor_def succeedingProcessor_def
  failedResume_def

lemma foundClientName_set: "foundClientName name certs \<longleftrightarrow> name \<in> set certs"
  by (induction certs) auto

lemma Contains_sublist: "Contains s substr \<longleftrightarrow> sublist substr s"
  by (induction s) (auto simp: sublist_Cons_right)

lemma SnappyReader_neq: "SnappyReader r \<noteq> r"
  by (induction r) auto

lemma length_without: "i < length xs \<Longrightarrow> length (without i xs) = length xs - 1"
  by (auto simp: without_def)

lemma admitted_iff:
  "fst (validateShouldHandleRequest a w r) \<Longrightarrow>
     \<not> uploading a \<and> \<not> processing a \<and> \<not> done a \<and>
     validateShouldHandleRequest a w r = (True, a\<lparr>uploading := True\<rparr>, w)"
  by (auto simp: validateShouldHandleRequest_def split: if_splits option.splits)

lemma rejected_unchanged:
  "\<not> fst (validateShouldHandleRequest a w r) \<Longrightarrow> fst (snd (validateShouldHandleRequest a w r)) = a"
  by (auto simp: validateShouldHandleRequest_def split: if_splits option.splits)

text \<open>Every step keeps the server consistent, so every run from a new server does.\<close>

lemma consistent_newServer: "consistent (newServer (NewUploadServer d c i f p))"
  by (simp add: consistent_def newServer_def NewUploadServer_def)

lemma consistent_arrive: "consistent s \<Longrightarrow> consistent (arrive rt r s)"
proof -
  assume c: "consistent s"
  show ?thesis
  proof (cases "isAsync rt \<and> Method r = MethodHead")
    case True
    with c show ?thesis by (simp add: arrive_def consistent_def)
  next
    case False
    show ?thesis
    proof (cases "fst (validateShouldHandleRequest (session s) newResponse r)")
      case True
      from admitted_iff [OF True] c False show ?thesis
        by (auto simp: arrive_def consistent_def split: prod.splits)
    next
      case f: False
      obtain b a1 w1 where v: "validateShouldHandleRequest (session s) newResponse r = (b, a1, w1)"
        by (metis prod_cases3)
      with f rejected_unchanged [OF f] have "\<not> b" "a1 = session s" by simp_all
      with v c False show ?thesis
        by (auto simp: arrive_def consistent_def split: if_splits)
    qed
  qed
qed

lemma consistent_proceed: "consistent s \<Longrightarrow> consistent (proceed upf upfa i s)"
proof -
  assume c: "consistent s"
  show ?thesis
  proof (cases "i < length (handlers s)")
    case False
    with c show ?thesis by (simp add: proceed_def)
  next
    case True
    with c have u: "uploading (session s)" "\<not> processing (session s)" "\<not> done (session s)"
        "\<not> doneChanClosed (session s)" "length (handlers s) = 1" "goroutines s = []" "panics s = 0"
      by (auto simp: consistent_def split: if_splits)
    from True u have w: "without i (handlers s) = []"
      using length_without [OF True] by simp
    show ?thesis
    proof (cases "isAsync (h_route (handlers s ! i))")
      case a: True
      with True u w show ?thesis
        by (auto simp: proceed_def consistent_def finishUploadAsync_def Let_def
            split: sum.splits prod.splits)
    next
      case a: False
      with True u w show ?thesis
        by (auto simp: proceed_def consistent_def finishUpload_def close_doneChan_def Let_def
            split: option.splits prod.splits outcome.splits)
    qed
  qed
qed

lemma consistent_resume: "consistent s \<Longrightarrow> consistent (resume i s)"
proof -
  assume c: "consistent s"
  show ?thesis
  proof (cases "i < length (goroutines s)")
    case False
    with c show ?thesis by (simp add: resume_def)
  next
    case True
    with c have u: "processing (session s)" "\<not> uploading (session s)" "\<not> done (session s)"
        "\<not> doneChanClosed (session s)" "length (goroutines s) = 1" "handlers s = []" "panics s = 0"
      by (auto simp: consistent_def split: if_splits)
    from True u have w: "without i (goroutines s) = []"
      using length_without [OF True] by simp
    with True u show ?thesis
      by (auto simp: resume_def consistent_def resumeProcessing_def close_doneChan_def
          errChan_send_def split: option.splits outcome.splits if_splits)
  qed
qed

lemma consistent_listenerReturned: "consistent s \<Longrightarrow> consistent (listenerReturned e s)"
  by (auto simp: listenerReturned_def errChan_send_def consistent_def split: if_splits)

lemma consistent_step: "consistent s \<Longrightarrow> consistent (step upf upfa ev s)"
  by (cases ev)
    (simp_all add: consistent_arrive consistent_proceed consistent_resume
      consistent_listenerReturned)

lemma consistent_exec: "consistent s \<Longrightarrow> consistent (exec upf upfa evs s)"
  by (induction evs arbitrary: s) (simp_all add: consistent_step)

lemma untar_skip:
  "\<forall>it\<in>set pre. \<not> selected marker it \<Longrightarrow>
     untarToBlockdev marker openFile (pre @ rest) final = untarToBlockdev marker openFile rest final"
proof (induction pre)
  case Nil
  then show ?case by simp
next
  case (Cons it pre)
  then show ?case by (cases it) auto
qed

subsection \<open>The admission check\<close>

text \<open>
  Claim C4. For a POST request that passes the peer identity check, the admission check
  does exactly this: when the session is uploading or processing it rejects with 503 and
  leaves the session as it is; otherwise, when the session is done, it rejects with 409 and
  leaves the session as it is; otherwise (idle) it sets the uploading flag, writes no
  status and admits the request.
\<close>

theorem admission_check:
  "Method r = MethodPost \<Longrightarrow>
   TLS r = None \<or> (\<exists>certs. TLS r = Some certs \<and> foundClientName (clientName a) certs) \<Longrightarrow>
     validateShouldHandleRequest a w r =
       (if uploading a \<or> processing a then (False, a, WriteHeader StatusServiceUnavailable w)
        else if done a then (False, a, WriteHeader StatusConflict w)
        else (True, a\<lparr>uploading := True\<rparr>, w))"
  by (auto simp: validateShouldHandleRequest_def)

theorem admission_check_witness:
  "validateShouldHandleRequest exampleApp newResponse examplePost =
     (True, exampleApp\<lparr>uploading := True\<rparr>, newResponse) \<and>
   validateShouldHandleRequest (exampleApp\<lparr>uploading := True\<rparr>) newResponse examplePost =
     (False, exampleApp\<lparr>uploading := True\<rparr>, \<lparr>headerCalls = [503], written = []\<rparr>) \<and>
   validateShouldHandleRequest (exampleApp\<lparr>processing := True\<rparr>) newResponse examplePost =
     (False, exampleApp\<lparr>processing := True\<rparr>, \<lparr>headerCalls = [503], written = []\<rparr>) \<and>
   validateShouldHandleRequest (exampleApp\<lparr>done := True\<rparr>) newResponse examplePost =
     (False, exampleApp\<lparr>done := True\<rparr>, \<lparr>headerCalls = [409], written = []\<rparr>)"
proof -
  have m: "Method examplePost = MethodPost" and t: "TLS examplePost = None"
    by (simp_all add: examplePost_def)
  have f: "\<not> uploading exampleApp" "\<not> processing exampleApp" "\<not> done exampleApp"
    by (simp_all add: exampleApp_def NewUploadServer_def)
  show ?thesis
    using admission_check [of examplePost exampleApp newResponse, OF m]
      admission_check [of examplePost "exampleApp\<lparr>uploading := True\<rparr>" newResponse, OF m]
      admission_check [of examplePost "exampleApp\<lparr>processing := True\<rparr>" newResponse, OF m]
      admission_check [of examplePost "exampleApp\<lparr>done := True\<rparr>" newResponse, OF m]
      t f
    by (simp add: WriteHeader_def newResponse_def)
qed

text \<open>
  Claim C9. On a TLS connection on which no peer certificate has the configured client
  name as its common name, a POST request is answered 401 and the session is left as it is,
  whatever the flags are (so before they are looked at), and both handlers return with
  that; a request with another method is answered 404 by the method check, which comes
  first.
\<close>

theorem peer_identity_check:
  "TLS r = Some certs \<Longrightarrow> clientName a \<notin> set certs \<Longrightarrow>
     validateShouldHandleRequest a w r =
       (False, a, WriteHeader (if Method r = MethodPost then StatusUnauthorized
                               else StatusNotFound) w) \<and>
     (Method r = MethodPost \<longrightarrow>
        processUpload upf irc a w r dv = Returned (a, WriteHeader StatusUnauthorized w) \<and>
        uploadHandlerAsync upfa irc a w r = (a, WriteHeader StatusUnauthorized w, None))"
  by (simp add: validateShouldHandleRequest_def foundClientName_set processUpload_def
      uploadHandlerAsync_def)

theorem peer_identity_check_witness:
  "validateShouldHandleRequest (exampleApp\<lparr>uploading := True\<rparr>) newResponse examplePeerB =
     (False, exampleApp\<lparr>uploading := True\<rparr>, \<lparr>headerCalls = [401], written = []\<rparr>) \<and>
   validateShouldHandleRequest (exampleApp\<lparr>done := True\<rparr>) newResponse examplePeerB =
     (False, exampleApp\<lparr>done := True\<rparr>, \<lparr>headerCalls = [401], written = []\<rparr>) \<and>
   processUpload (succeedingProcessor True) bodyReadCloser exampleApp newResponse examplePeerB
       DataVolumeKubeVirt =
     Returned (exampleApp, \<lparr>headerCalls = [401], written = []\<rparr>) \<and>
   validateShouldHandleRequest exampleApp newResponse (examplePeerB\<lparr>Method := ''GET''\<rparr>) =
     (False, exampleApp, \<lparr>headerCalls = [404], written = []\<rparr>)"
proof -
  have t: "TLS examplePeerB = Some [''client-B'']"
      "TLS (examplePeerB\<lparr>Method := ''GET''\<rparr>) = Some [''client-B'']"
    and m: "Method examplePeerB = MethodPost"
    by (simp_all add: examplePeerB_def examplePost_def)
  have n: "clientName (exampleApp\<lparr>uploading := True\<rparr>) \<notin> set [''client-B'']"
      "clientName (exampleApp\<lparr>done := True\<rparr>) \<notin> set [''client-B'']"
      "clientName exampleApp \<notin> set [''client-B'']"
    by (simp_all add: exampleApp_def NewUploadServer_def)
  show ?thesis
    using peer_identity_check [OF t(1) n(1), of newResponse "succeedingProcessor True"
        bodyReadCloser DataVolumeKubeVirt "pausedProcessor failedResume"]
      peer_identity_check [OF t(1) n(2), of newResponse "succeedingProcessor True"
        bodyReadCloser DataVolumeKubeVirt "pausedProcessor failedResume"]
      peer_identity_check [OF t(1) n(3), of newResponse "succeedingProcessor True"
        bodyReadCloser DataVolumeKubeVirt "pausedProcessor failedResume"]
      peer_identity_check [OF t(2) n(3), of newResponse "succeedingProcessor True"
        bodyReadCloser DataVolumeKubeVirt "pausedProcessor failedResume"]
      m
    by (simp add: WriteHeader_def newResponse_def)
qed

text \<open>
  Claim C8. A HEAD request to an asynchronous upload path is answered 200, starts no
  goroutine and leaves the session, every field of it, as it is, whatever the state.
\<close>

theorem head_probe:
  "Method r = MethodHead \<Longrightarrow>
     uploadHandlerAsync upfa irc a w r = (a, WriteHeader StatusOK w, None) \<and>
     status (WriteHeader StatusOK newResponse) = StatusOK \<and>
     session (arrive AsyncUpload r s) = session s \<and>
     session (arrive AsyncUploadForm r s) = session s"
  by (simp add: uploadHandlerAsync_def status_def WriteHeader_def newResponse_def arrive_def)

theorem head_probe_witness:
  "uploadHandlerAsync (pausedProcessor failedResume) bodyReadCloser
       (exampleApp\<lparr>uploading := True\<rparr>) newResponse exampleHead =
     (exampleApp\<lparr>uploading := True\<rparr>, \<lparr>headerCalls = [200], written = []\<rparr>, None) \<and>
   uploadHandlerAsync (pausedProcessor failedResume) bodyReadCloser
       (exampleApp\<lparr>done := True\<rparr>) newResponse exampleHead =
     (exampleApp\<lparr>done := True\<rparr>, \<lparr>headerCalls = [200], written = []\<rparr>, None)"
proof -
  have m: "Method exampleHead = MethodHead"
    by (simp add: exampleHead_def)
  show ?thesis
    using head_probe [OF m, of "pausedProcessor failedResume" bodyReadCloser
        "exampleApp\<lparr>uploading := True\<rparr>" newResponse]
      head_probe [OF m, of "pausedProcessor failedResume" bodyReadCloser
        "exampleApp\<lparr>done := True\<rparr>" newResponse]
    by (simp add: WriteHeader_def newResponse_def)
qed

subsection \<open>The content decoder and the archive extractor\<close>

text \<open>
  Claim C7. The content decoder wraps the stream in a snappy reader exactly when the
  declared content type equals the block device clone token, and returns the stream itself
  for every other content type; so reading a stream tagged with another type gives its
  bytes unchanged, and with a token that is not empty this holds for the empty content
  type of an absent header.
\<close>

theorem content_decoder:
  "newContentReader tok stream ct = (if ct = tok then SnappyReader stream else stream) \<and>
   (newContentReader tok stream ct = newSnappyReadCloser stream \<longleftrightarrow> ct = tok) \<and>
   (ct \<noteq> tok \<longrightarrow> readAll decode (newContentReader tok (Stream bs) ct) = Inr bs) \<and>
   (tok \<noteq> [] \<longrightarrow> newContentReader tok stream [] = stream)"
  using SnappyReader_neq [of stream]
  by (auto simp: newContentReader_def newSnappyReadCloser_def)

theorem content_decoder_witness:
  "newContentReader ''blockdevice-clone'' (Stream ''raw'') ''blockdevice-clone'' =
     SnappyReader (Stream ''raw'') \<and>
   newContentReader ''blockdevice-clone'' (Stream ''raw'') [] = Stream ''raw'' \<and>
   readAll Inr (newContentReader ''blockdevice-clone'' (Stream ''raw'') ''filesystem-clone'') =
     Inr ''raw''"
  using content_decoder [of "''blockdevice-clone''" "Stream ''raw''" "''blockdevice-clone''"
      Inr "''raw''"]
    content_decoder [of "''blockdevice-clone''" "Stream ''raw''" "[]" Inr "''raw''"]
    content_decoder [of "''blockdevice-clone''" "Stream ''raw''" "''filesystem-clone''"
      Inr "''raw''"]
  by simp

text \<open>
  Claim C6. The block device extractor passes over every entry whose name does not
  contain the disk image marker (and over every entry that is not selected); at the first
  entry whose name contains the marker and whose type is regular or GNU sparse it copies
  that entry's declared size in bytes to the destination and returns, whatever entries
  follow. The entry is taken to yield at least its declared, non-negative size, as the entry
  of a complete archive does, and the destination to open and to take every write.
\<close>

theorem untar_first_match:
  "\<forall>it\<in>set pre. \<not> selected marker it \<Longrightarrow> selected marker (Entry h bs) \<Longrightarrow>
   0 \<le> Size h \<Longrightarrow> Size h \<le> int (length bs) \<Longrightarrow>
     untarToBlockdev marker (Inr Accepting) (pre @ Entry h bs # post) final =
       (take (nat (Size h)) bs, None) \<and>
     int (length (fst (untarToBlockdev marker (Inr Accepting) (pre @ Entry h bs # post) final))) =
       Size h \<and>
     (\<forall>h' bs' rest. \<not> Contains (Name h') marker \<longrightarrow>
        untarToBlockdev marker openFile (Entry h' bs' # rest) final =
          untarToBlockdev marker openFile rest final)"
  by (simp add: untar_skip CopyN_def Let_def)

theorem untar_first_match_witness:
  "untarToBlockdev ''disk.img'' (Inr Accepting) exampleArchive EOF = (''hello'', None)"
proof -
  have p: "\<forall>it\<in>set [Entry \<lparr>Name = ''metadata.json'', Typeflag = TypeReg, Size = 2\<rparr> ''{}''].
             \<not> selected ''disk.img'' it"
    by simp
  have s: "selected ''disk.img'' (Entry \<lparr>Name = ''disk.img'', Typeflag = TypeReg, Size = 5\<rparr> ''hello'')"
    by simp
  show ?thesis
    using untar_first_match [OF p s, of
        "[Entry \<lparr>Name = ''disk.img.bak'', Typeflag = TypeReg, Size = 3\<rparr> ''old'']" EOF
        "Inr Accepting"]
    by (simp add: exampleArchive_def)
qed

subsection \<open>Failures of the processor and of the body extraction\<close>

text \<open>
  Claim C3. A size validation error of the processor on a synchronous upload path: the
  handler writes 500, where the asynchronous handler writes 400 for the same error.
\<close>

theorem sync_size_validation_status:
  "processUpload (failingProcessor (ValidationSizeError ''too large'')) bodyReadCloser
     exampleApp newResponse examplePost DataVolumeKubeVirt =
     Returned (exampleApp, \<lparr>headerCalls = [500], written = []\<rparr>) \<and>
   uploadHandlerAsync (failingProcessorAsync (ValidationSizeError ''too large'')) bodyReadCloser
     exampleApp newResponse examplePost =
     (exampleApp, \<lparr>headerCalls = [400], written = ''Saving stream failed: too large''\<rparr>, None)"
  by (simp add: processUpload_def uploadHandlerAsync_def run_simps)

text \<open>
  Claim C10, as the code has it. When the body extraction fails for an admitted request,
  either handler writes 400 and goes on to call the processor with the nil reader; what
  the handler then does is decided by what that call returns. When it fails, the handler
  writes a second status on the same response: the synchronous handler 500; the
  asynchronous handler 400 for a size validation error and 500 for any other error,
  followed by the message. When it succeeds, no second status is written and the upload
  goes on as after a good extraction: the synchronous handler records the preallocation
  result, sets done and closes the done channel; the asynchronous handler sets processing
  and starts the goroutine with the processor returned.
\<close>

theorem extraction_failure_goes_on:
  "fst (validateShouldHandleRequest a w r) \<Longrightarrow> irc r = Inl e \<Longrightarrow>
     processUpload upf irc a w r dv =
       (case upf NilReader (destination a) (imageSize a) (filesystemOverhead a)
               (preallocation a) (UploadContentTypeHeader r) dv of
          (applied, Some e') \<Rightarrow>
            Returned (a\<lparr>uploading := False, preallocationApplied := applied\<rparr>,
                      w\<lparr>headerCalls := headerCalls w @
                          [StatusBadRequest, StatusInternalServerError]\<rparr>)
        | (applied, None) \<Rightarrow>
            (if doneChanClosed a
             then Panicked (a\<lparr>uploading := False, done := True,
                               preallocationApplied := applied\<rparr>,
                            w\<lparr>headerCalls := headerCalls w @ [StatusBadRequest]\<rparr>)
             else Returned (a\<lparr>uploading := False, done := True,
                               preallocationApplied := applied, doneChanClosed := True,
                               run := (if run a = Waiting then ShutDown else run a)\<rparr>,
                            w\<lparr>headerCalls := headerCalls w @ [StatusBadRequest]\<rparr>))) \<and>
     uploadHandlerAsync upfa irc a w r =
       (case upfa NilReader (destination a) (imageSize a) (filesystemOverhead a)
               (preallocation a) (UploadContentTypeHeader r) of
          Inl e' \<Rightarrow>
            (a\<lparr>uploading := False\<rparr>,
             w\<lparr>headerCalls := headerCalls w @
                   [StatusBadRequest,
                    if isValidationSizeError e' then StatusBadRequest
                    else StatusInternalServerError],
               written := written w @ ''Saving stream failed: '' @ Error e'\<rparr>,
             None)
        | Inr processor \<Rightarrow>
            (a\<lparr>uploading := False, processing := True\<rparr>,
             w\<lparr>headerCalls := headerCalls w @ [StatusBadRequest]\<rparr>,
             Some processor))"
proof -
  assume adm: "fst (validateShouldHandleRequest a w r)" and e: "irc r = Inl e"
  from admitted_iff [OF adm]
  have v: "validateShouldHandleRequest a w r = (True, a\<lparr>uploading := True\<rparr>, w)"
    by simp
  from adm have m: "Method r = MethodPost"
    by (auto simp: validateShouldHandleRequest_def split: if_splits)
  have rb: "readBody irc w r = (NilReader, WriteHeader StatusBadRequest w)"
    by (simp add: readBody_def e)
  have 1: "processUpload upf irc a w r dv =
       (case upf NilReader (destination a) (imageSize a) (filesystemOverhead a)
               (preallocation a) (UploadContentTypeHeader r) dv of
          (applied, Some e') \<Rightarrow>
            Returned (a\<lparr>uploading := False, preallocationApplied := applied\<rparr>,
                      w\<lparr>headerCalls := headerCalls w @
                          [StatusBadRequest, StatusInternalServerError]\<rparr>)
        | (applied, None) \<Rightarrow>
            (if doneChanClosed a
             then Panicked (a\<lparr>uploading := False, done := True,
                               preallocationApplied := applied\<rparr>,
                            w\<lparr>headerCalls := headerCalls w @ [StatusBadRequest]\<rparr>)
             else Returned (a\<lparr>uploading := False, done := True,
                               preallocationApplied := applied, doneChanClosed := True,
                               run := (if run a = Waiting then ShutDown else run a)\<rparr>,
                            w\<lparr>headerCalls := headerCalls w @ [StatusBadRequest]\<rparr>)))"
    by (simp add: processUpload_def v rb finishUpload_def close_doneChan_def WriteHeader_def
        split: prod.splits option.splits)
  have 2: "uploadHandlerAsync upfa irc a w r =
       (case upfa NilReader (destination a) (imageSize a) (filesystemOverhead a)
               (preallocation a) (UploadContentTypeHeader r) of
          Inl e' \<Rightarrow>
            (a\<lparr>uploading := False\<rparr>,
             w\<lparr>headerCalls := headerCalls w @
                   [StatusBadRequest,
                    if isValidationSizeError e' then StatusBadRequest
                    else StatusInternalServerError],
               written := written w @ ''Saving stream failed: '' @ Error e'\<rparr>,
             None)
        | Inr processor \<Rightarrow>
            (a\<lparr>uploading := False, processing := True\<rparr>,
             w\<lparr>headerCalls := headerCalls w @ [StatusBadRequest]\<rparr>,
             Some processor))"
    by (simp add: uploadHandlerAsync_def v rb m finishUploadAsync_def WriteHeader_def
        Fprintf_def split: sum.splits)
  from 1 2 show ?thesis by (rule conjI)
qed

theorem extraction_failure_goes_on_witness:
  "formReadCloser exampleForm = Inl EOF \<and>
   processUpload (failingProcessor (Err ''nil stream'')) formReadCloser exampleApp newResponse
       exampleForm DataVolumeKubeVirt =
     Returned (exampleApp, \<lparr>headerCalls = [400, 500], written = []\<rparr>) \<and>
   processUpload (succeedingProcessor True) formReadCloser exampleApp newResponse
       exampleForm DataVolumeKubeVirt =
     Returned (exampleApp\<lparr>done := True, preallocationApplied := True,
                 doneChanClosed := True, run := ShutDown\<rparr>,
               \<lparr>headerCalls = [400], written = []\<rparr>) \<and>
   uploadHandlerAsync (failingProcessorAsync (Err ''nil stream'')) formReadCloser exampleApp
       newResponse exampleForm =
     (exampleApp, \<lparr>headerCalls = [400, 500], written = ''Saving stream failed: nil stream''\<rparr>,
      None) \<and>
   uploadHandlerAsync (pausedProcessor failedResume) formReadCloser exampleApp
       newResponse exampleForm =
     (exampleApp\<lparr>processing := True\<rparr>, \<lparr>headerCalls = [400], written = []\<rparr>,
      Some failedResume)"
proof -
  have adm: "fst (validateShouldHandleRequest exampleApp newResponse exampleForm)"
    by (simp add: exampleForm_def run_simps)
  have e: "formReadCloser exampleForm = Inl EOF"
    by (simp add: formReadCloser_def exampleForm_def)
  note t1 = extraction_failure_goes_on [where a = exampleApp and w = newResponse
      and r = exampleForm and irc = formReadCloser and e = EOF
      and upf = "failingProcessor (Err ''nil stream'')" and dv = DataVolumeKubeVirt
      and upfa = "failingProcessorAsync (Err ''nil stream'')", OF adm e]
  note t2 = extraction_failure_goes_on [where a = exampleApp and w = newResponse
      and r = exampleForm and irc = formReadCloser and e = EOF
      and upf = "succeedingProcessor True" and dv = DataVolumeKubeVirt
      and upfa = "pausedProcessor failedResume", OF adm e]
  have p1: "processUpload (failingProcessor (Err ''nil stream'')) formReadCloser exampleApp
       newResponse exampleForm DataVolumeKubeVirt =
     Returned (exampleApp, \<lparr>headerCalls = [400, 500], written = []\<rparr>)"
    using t1 [THEN conjunct1]
    by (simp add: failingProcessor_def newResponse_def exampleApp_def NewUploadServer_def)
  have p2: "processUpload (succeedingProcessor True) formReadCloser exampleApp newResponse
       exampleForm DataVolumeKubeVirt =
     Returned (exampleApp\<lparr>done := True, preallocationApplied := True,
                 doneChanClosed := True, run := ShutDown\<rparr>,
               \<lparr>headerCalls = [400], written = []\<rparr>)"
    using t2 [THEN conjunct1]
    by (simp add: succeedingProcessor_def newResponse_def exampleApp_def NewUploadServer_def)
  have q1: "uploadHandlerAsync (failingProcessorAsync (Err ''nil stream'')) formReadCloser
       exampleApp newResponse exampleForm =
     (exampleApp, \<lparr>headerCalls = [400, 500], written = ''Saving stream failed: nil stream''\<rparr>,
      None)"
    using t1 [THEN conjunct2]
    by (simp add: failingProcessorAsync_def newResponse_def exampleApp_def NewUploadServer_def)
  have q2: "uploadHandlerAsync (pausedProcessor failedResume) formReadCloser exampleApp
       newResponse exampleForm =
     (exampleApp\<lparr>processing := True\<rparr>, \<lparr>headerCalls = [400], written = []\<rparr>,
      Some failedResume)"
    using t2 [THEN conjunct2]
    by (simp add: pausedProcessor_def newResponse_def exampleApp_def NewUploadServer_def)
  from e p1 p2 q1 q2 show ?thesis by simp
qed

text \<open>
  Claim C10, as stated, fails for the asynchronous handler: the form has no part named
  file, the processor fails on the nil reader with a size validation error, and the
  second status written is 400, not one of the 500 class.
\<close>

theorem async_extraction_failure_second_status:
  "formReadCloser exampleForm = Inl EOF \<and>
   headerCalls (fst (snd (uploadHandlerAsync
      (failingProcessorAsync (ValidationSizeError ''too large'')) formReadCloser
      exampleApp newResponse exampleForm))) = [400, 400]"
  by (simp add: uploadHandlerAsync_def formReadCloser_def exampleForm_def run_simps)

subsection \<open>The session over the life of the server\<close>

text \<open>
  Claim C5. In every state the server reaches in which the done flag is set, the uploading
  and processing flags are both clear; a POST request that gets as far as the check of the
  flags is answered 409 there, by the admission check and so by either handler, with the
  session left as it is; and no request at all is answered 503 by the admission check.
\<close>

theorem done_is_terminal:
  "s = exec upf upfa evs (newServer (NewUploadServer d c z f p)) \<Longrightarrow> done (session s) \<Longrightarrow>
     \<not> uploading (session s) \<and> \<not> processing (session s) \<and>
     (Method r = MethodPost \<and>
      (TLS r = None \<or> (\<exists>certs. TLS r = Some certs \<and> clientName (session s) \<in> set certs)) \<longrightarrow>
        validateShouldHandleRequest (session s) w r =
          (False, session s, WriteHeader StatusConflict w) \<and>
        processUpload upf irc (session s) w r dv =
          Returned (session s, WriteHeader StatusConflict w) \<and>
        uploadHandlerAsync upfa irc (session s) w r =
          (session s, WriteHeader StatusConflict w, None)) \<and>
     snd (snd (validateShouldHandleRequest (session s) w r)) \<noteq>
       WriteHeader StatusServiceUnavailable w"
proof -
  assume s: "s = exec upf upfa evs (newServer (NewUploadServer d c z f p))"
    and d: "done (session s)"
  have "consistent s"
    unfolding s by (rule consistent_exec [OF consistent_newServer])
  with d have f: "\<not> uploading (session s)" "\<not> processing (session s)"
    by (auto simp: consistent_def)
  have n: "headerCalls (WriteHeader x w) \<noteq> headerCalls (WriteHeader y w)" if "x \<noteq> y" for x y
    using that by (simp add: WriteHeader_def)
  have ne: "WriteHeader x w \<noteq> WriteHeader StatusServiceUnavailable w"
    if "x \<noteq> StatusServiceUnavailable" for x
    using n [OF that] by metis
  from d f show ?thesis
    by (auto simp: validateShouldHandleRequest_def foundClientName_set ne processUpload_def
        uploadHandlerAsync_def split: option.splits)
qed

theorem done_is_terminal_witness:
  "done (session syncDoneRun) \<and> \<not> uploading (session syncDoneRun) \<and>
   \<not> processing (session syncDoneRun) \<and>
   validateShouldHandleRequest (session syncDoneRun) newResponse examplePost =
     (False, session syncDoneRun, \<lparr>headerCalls = [409], written = []\<rparr>)"
proof -
  have a: "syncDoneRun =
      exec (succeedingProcessor True) (pausedProcessor failedResume)
        [Arrive SyncUpload examplePost, Proceed 0]
        (newServer (NewUploadServer ''/dev/cdi-block-volume'' ''client-A'' ''1Gi'' 0 True))"
    by (simp only: syncDoneRun_def exampleApp_def)
  have d: "done (session syncDoneRun)"
    by (simp add: syncDoneRun_def run_simps)
  have m: "Method examplePost = MethodPost" "TLS examplePost = None"
    by (simp_all add: examplePost_def)
  show ?thesis
    using done_is_terminal [OF a d, of examplePost newResponse bodyReadCloser DataVolumeKubeVirt] d m
    by (simp add: WriteHeader_def newResponse_def)
qed

text \<open>
  Claim C2, as the code has it: the admission check admits a request only when the
  uploading, processing and done flags are all clear, and sets uploading; at every moment
  at most one admitted handler or goroutine is unfinished; and after a failed synchronous attempt the
  handler has returned with all three flags clear, so the same request is admitted again.
\<close>

theorem one_upload_in_flight:
  "(fst (validateShouldHandleRequest a w r) \<longrightarrow>
      \<not> uploading a \<and> \<not> processing a \<and> \<not> done a \<and>
      uploading (fst (snd (validateShouldHandleRequest a w r)))) \<and>
   length (handlers (exec upf upfa evs (newServer (NewUploadServer d c z f p)))) +
     length (goroutines (exec upf upfa evs (newServer (NewUploadServer d c z f p)))) \<le> 1 \<and>
   (fst (validateShouldHandleRequest a w r) \<and>
    snd (upf (fst (readBody irc w r)) (destination a) (imageSize a) (filesystemOverhead a)
           (preallocation a) (UploadContentTypeHeader r) dv) \<noteq> None \<longrightarrow>
      processUpload upf irc a w r dv = Returned (state_of (processUpload upf irc a w r dv)) \<and>
      \<not> uploading (fst (state_of (processUpload upf irc a w r dv))) \<and>
      \<not> processing (fst (state_of (processUpload upf irc a w r dv))) \<and>
      \<not> done (fst (state_of (processUpload upf irc a w r dv))) \<and>
      fst (validateShouldHandleRequest (fst (state_of (processUpload upf irc a w r dv))) w r))"
proof -
  have 1: "fst (validateShouldHandleRequest a w r) \<longrightarrow>
      \<not> uploading a \<and> \<not> processing a \<and> \<not> done a \<and>
      uploading (fst (snd (validateShouldHandleRequest a w r)))"
    using admitted_iff [of a w r] by auto
  have "consistent (exec upf upfa evs (newServer (NewUploadServer d c z f p)))"
    by (rule consistent_exec [OF consistent_newServer])
  then have 2: "length (handlers (exec upf upfa evs (newServer (NewUploadServer d c z f p)))) +
      length (goroutines (exec upf upfa evs (newServer (NewUploadServer d c z f p)))) \<le> 1"
    by (auto simp: consistent_def split: if_splits)
  have 3: "processUpload upf irc a w r dv = Returned (state_of (processUpload upf irc a w r dv)) \<and>
      \<not> uploading (fst (state_of (processUpload upf irc a w r dv))) \<and>
      \<not> processing (fst (state_of (processUpload upf irc a w r dv))) \<and>
      \<not> done (fst (state_of (processUpload upf irc a w r dv))) \<and>
      fst (validateShouldHandleRequest (fst (state_of (processUpload upf irc a w r dv))) w r)"
    if adm: "fst (validateShouldHandleRequest a w r)"
      and err: "snd (upf (fst (readBody irc w r)) (destination a) (imageSize a)
        (filesystemOverhead a) (preallocation a) (UploadContentTypeHeader r) dv) \<noteq> None"
  proof -
    from admitted_iff [OF adm]
    have v: "validateShouldHandleRequest a w r = (True, a\<lparr>uploading := True\<rparr>, w)"
      and idle: "\<not> uploading a" "\<not> processing a" "\<not> done a"
      by simp_all
    obtain rc w2 where rb: "readBody irc w r = (rc, w2)"
      by (cases "readBody irc w r")
    obtain applied e where u: "upf rc (destination a) (imageSize a) (filesystemOverhead a)
        (preallocation a) (UploadContentTypeHeader r) dv = (applied, Some e)"
      using err rb by (metis fst_conv not_Some_eq prod.collapse)
    have pu: "processUpload upf irc a w r dv =
        Returned (a\<lparr>uploading := False, preallocationApplied := applied\<rparr>,
                  WriteHeader StatusInternalServerError w2)"
      by (simp add: processUpload_def v rb finishUpload_def u)
    have "fst (validateShouldHandleRequest
        (a\<lparr>uploading := False, preallocationApplied := applied\<rparr>) w r)"
      using adm idle by (auto simp: validateShouldHandleRequest_def split: if_splits option.splits)
    with pu idle show ?thesis by simp
  qed
  from 1 2 3 show ?thesis by blast
qed

theorem one_upload_in_flight_witness:
  "fst (validateShouldHandleRequest exampleApp newResponse examplePost) \<and>
   processUpload (failingProcessor (Err ''conversion failed'')) bodyReadCloser exampleApp
       newResponse examplePost DataVolumeKubeVirt =
     Returned (exampleApp, \<lparr>headerCalls = [500], written = []\<rparr>) \<and>
   fst (validateShouldHandleRequest
     (fst (state_of (processUpload (failingProcessor (Err ''conversion failed'')) bodyReadCloser
        exampleApp newResponse examplePost DataVolumeKubeVirt))) newResponse examplePost)"
proof -
  have adm: "fst (validateShouldHandleRequest exampleApp newResponse examplePost)"
    by (simp add: run_simps)
  have err: "snd (failingProcessor (Err ''conversion failed'')
      (fst (readBody bodyReadCloser newResponse examplePost)) (destination exampleApp)
      (imageSize exampleApp) (filesystemOverhead exampleApp) (preallocation exampleApp)
      (UploadContentTypeHeader examplePost) DataVolumeKubeVirt) \<noteq> None"
    by (simp add: failingProcessor_def)
  have val: "processUpload (failingProcessor (Err ''conversion failed'')) bodyReadCloser exampleApp
       newResponse examplePost DataVolumeKubeVirt =
     Returned (exampleApp, \<lparr>headerCalls = [500], written = []\<rparr>)"
    by (simp add: processUpload_def run_simps)
  note t = one_upload_in_flight [where a = exampleApp and w = newResponse and r = examplePost
      and upf = "failingProcessor (Err ''conversion failed'')"
      and upfa = "pausedProcessor failedResume" and evs = "[]" and d = "[]" and c = "[]"
      and z = "[]" and f = 0 and p = False and irc = bodyReadCloser and dv = DataVolumeKubeVirt]
  from t adm err have "fst (validateShouldHandleRequest
     (fst (state_of (processUpload (failingProcessor (Err ''conversion failed'')) bodyReadCloser
        exampleApp newResponse examplePost DataVolumeKubeVirt))) newResponse examplePost)"
    by blast
  with adm val show ?thesis by blast
qed

text \<open>
  Claim C2, as stated, fails: the first request is admitted, its synchronous processing
  fails and is answered 500, and the next request is admitted as well.
\<close>

theorem retry_after_sync_failure:
  "fst (validateShouldHandleRequest exampleApp newResponse examplePost) \<and>
   responses syncFailedRun = [\<lparr>headerCalls = [500], written = []\<rparr>] \<and>
   fst (validateShouldHandleRequest (session syncFailedRun) newResponse examplePost)"
  by (simp add: syncFailedRun_def run_simps)

text \<open>
  Claim C1, as the code has it: when \<^verbatim>\<open>ProcessDataResume\<close> fails in the goroutine of an
  asynchronous upload, the error is sent on the error channel. While the run loop is
  receiving, it gets that error, and the goroutine runs on to its end, where the deferred
  close closes the done channel, open until then, without a panic. Once the run loop has
  stopped receiving, the goroutine blocks on the send and nothing changes.
\<close>

theorem async_failure_reported:
  "s = exec upf upfa evs (newServer (NewUploadServer d c z f p)) \<Longrightarrow>
   i < length (goroutines s) \<Longrightarrow> ProcessDataResume (goroutines s ! i) = Some e \<Longrightarrow>
     (run (session s) = Waiting \<longrightarrow>
        run (session (resume i s)) = ReturnedError e \<and>
        \<not> doneChanClosed (session s) \<and> doneChanClosed (session (resume i s)) \<and>
        panics (resume i s) = 0 \<and> goroutines (resume i s) = []) \<and>
     (run (session s) \<noteq> Waiting \<longrightarrow> resume i s = s)"
proof -
  assume s: "s = exec upf upfa evs (newServer (NewUploadServer d c z f p))"
    and i: "i < length (goroutines s)" and e: "ProcessDataResume (goroutines s ! i) = Some e"
  have c: "consistent s"
    unfolding s by (rule consistent_exec [OF consistent_newServer])
  with i have u: "\<not> doneChanClosed (session s)" "length (goroutines s) = 1" "panics s = 0"
    by (auto simp: consistent_def split: if_splits)
  from i u have w: "without i (goroutines s) = []"
    using length_without [OF i] by simp
  from i e u w show ?thesis
    by (simp add: resume_def resumeProcessing_def errChan_send_def close_doneChan_def)
qed

theorem async_failure_reported_witness:
  "run (session asyncPendingRun) = Waiting \<and>
   run (session (resume 0 asyncPendingRun)) = ReturnedError (Err ''no space left'') \<and>
   \<not> doneChanClosed (session asyncPendingRun) \<and>
   doneChanClosed (session (resume 0 asyncPendingRun)) \<and>
   resume 0 (listenerReturned (Err ''listener closed'') asyncPendingRun) =
     listenerReturned (Err ''listener closed'') asyncPendingRun"
proof -
  have a: "asyncPendingRun =
      exec (failingProcessor (Err ''unused'')) (pausedProcessor failedResume)
        [Arrive AsyncUpload examplePost, Proceed 0]
        (newServer (NewUploadServer ''/dev/cdi-block-volume'' ''client-A'' ''1Gi'' 0 True))"
    by (simp only: asyncPendingRun_def exampleApp_def)
  have b: "listenerReturned (Err ''listener closed'') asyncPendingRun =
      exec (failingProcessor (Err ''unused'')) (pausedProcessor failedResume)
        [Arrive AsyncUpload examplePost, Proceed 0, ListenerReturned (Err ''listener closed'')]
        (newServer (NewUploadServer ''/dev/cdi-block-volume'' ''client-A'' ''1Gi'' 0 True))"
    by (simp add: asyncPendingRun_def exampleApp_def)
  have g: "goroutines asyncPendingRun = [failedResume]"
      "goroutines (listenerReturned (Err ''listener closed'') asyncPendingRun) = [failedResume]"
      "run (session asyncPendingRun) = Waiting"
      "run (session (listenerReturned (Err ''listener closed'') asyncPendingRun)) \<noteq> Waiting"
    by (simp_all add: asyncPendingRun_def listenerReturned_def run_simps)
  have l: "0 < length (goroutines asyncPendingRun)"
      "0 < length (goroutines (listenerReturned (Err ''listener closed'') asyncPendingRun))"
    and r: "ProcessDataResume (goroutines asyncPendingRun ! 0) = Some (Err ''no space left'')"
      "ProcessDataResume (goroutines (listenerReturned (Err ''listener closed'') asyncPendingRun) ! 0)
         = Some (Err ''no space left'')"
    by (simp_all add: g failedResume_def)
  show ?thesis
    using async_failure_reported [OF a l(1) r(1)] async_failure_reported [OF b l(2) r(2)] g(3,4)
    by simp
qed

text \<open>
  Claim C1, as stated, fails: after the failed background processing of an asynchronous
  upload the run loop has the error, and the done flag is set, \<open>preallocationApplied\<close> is
  recorded and the done channel is closed.
\<close>

theorem async_failure_reaches_done:
  "run (session asyncFailureRun) = ReturnedError (Err ''no space left'') \<and>
   done (session asyncFailureRun) \<and>
   preallocationApplied (session asyncFailureRun) \<and>
   doneChanClosed (session asyncFailureRun)"
  by (simp add: asyncFailureRun_def run_simps)

end
